theory Spec2Isabelle
  imports Complex_Main
begin

section \<open>Python strings\<close>

text \<open>
  A Python \<open>str\<close> is modelled as a \<open>string\<close> of ASCII characters. The case
  functions below change the 26 ASCII letters only and leave every other
  character as it is; whitespace is what \<open>str.strip\<close> removes inside ASCII
  (tab, line feed, vertical tab, form feed, carriage return, the four
  separators 0x1C..0x1F and the space).
\<close>

definition whitespace :: "char list" where
  "whitespace = [CHR 0x09, CHR 0x0A, CHR 0x0B, CHR 0x0C, CHR 0x0D,
                 CHR 0x1C, CHR 0x1D, CHR 0x1E, CHR 0x1F, CHR '' '']"

definition is_space :: "char \<Rightarrow> bool" where
  "is_space c = (c \<in> set whitespace)"

definition lower_table :: "(char \<times> char) list" where
  "lower_table = zip ''ABCDEFGHIJKLMNOPQRSTUVWXYZ'' ''abcdefghijklmnopqrstuvwxyz''"

definition upper_table :: "(char \<times> char) list" where
  "upper_table = zip ''abcdefghijklmnopqrstuvwxyz'' ''ABCDEFGHIJKLMNOPQRSTUVWXYZ''"

definition lower_char :: "char \<Rightarrow> char" where
  "lower_char c = (case map_of lower_table c of Some l \<Rightarrow> l | None \<Rightarrow> c)"

definition upper_char :: "char \<Rightarrow> char" where
  "upper_char c = (case map_of upper_table c of Some u \<Rightarrow> u | None \<Rightarrow> c)"

text \<open>\<open>s.strip()\<close>: whitespace removed from both ends.\<close>

definition strip :: "string \<Rightarrow> string" where
  "strip s = rev (dropWhile is_space (rev (dropWhile is_space s)))"

text \<open>\<open>s.lower()\<close>.\<close>

definition lower :: "string \<Rightarrow> string" where
  "lower s = map lower_char s"

text \<open>\<open>s.capitalize()\<close>: the first character in upper case, every other
  character in lower case.\<close>

fun capitalize :: "string \<Rightarrow> string" where
  "capitalize [] = []"
| "capitalize (c # cs) = upper_char c # map lower_char cs"

text \<open>\<open>s.endswith(suffix)\<close>.\<close>

definition endswith :: "string \<Rightarrow> string \<Rightarrow> bool" where
  "endswith s suffix = (length suffix \<le> length s \<and> drop (length s - length suffix) s = suffix)"

section \<open>Values of a table cell\<close>

text \<open>
  A float is a finite value, one of the two infinities, or NaN. Finite
  arithmetic is idealised as exact arithmetic on rationals (no rounding, no
  overflow). pandas uses NaN for a missing value, so \<open>Flt NaN\<close> is the null cell.
\<close>

datatype fl = Fin rat | PInf | NInf | NaN

datatype cell = Str string | Flt fl

text \<open>\<open>pd.isna\<close> on a scalar.\<close>

fun isna :: "cell \<Rightarrow> bool" where
  "isna (Flt NaN) = True"
| "isna _ = False"

text \<open>Elementwise \<open>==\<close>: NaN equals nothing, a string never equals a number.\<close>

definition cell_eq :: "cell \<Rightarrow> cell \<Rightarrow> bool" where
  "cell_eq a b = (\<not> isna a \<and> \<not> isna b \<and> a = b)"

text \<open>Float addition, with \<open>inf + -inf = nan\<close>.\<close>

fun fl_add :: "fl \<Rightarrow> fl \<Rightarrow> fl" where
  "fl_add NaN _ = NaN"
| "fl_add _ NaN = NaN"
| "fl_add (Fin a) (Fin b) = Fin (a + b)"
| "fl_add PInf NInf = NaN"
| "fl_add NInf PInf = NaN"
| "fl_add PInf _ = PInf"
| "fl_add _ PInf = PInf"
| "fl_add NInf _ = NInf"
| "fl_add _ NInf = NInf"

text \<open>
  The exceptions of the program. The last two constructors mark the two places
  where the model stops: \<open>DuplicateLabel\<close> where the code selects one label
  that several columns carry (pandas hands back a sub-frame there, and what
  follows depends on pandas internals), \<open>NonNumeric\<close> where the code sums a
  column that holds a string. Nothing is claimed about a run that ends in one
  of them.
\<close>

datatype error = KeyError | AttributeError | ValueError | TypeError
  | InvalidIndexError | ParseError | DuplicateLabel | NonNumeric

section \<open>Dashboard\_New.py: the state normalizer\<close>

definition state_map :: "(string \<times> string) list" where
  "state_map =
    [(''remitted'', ''Remitted''),
     (''published'', ''Published''),
     (''rejected'', ''Rejected''),
     (''on hold'', ''On hold''),
     (''onhold'', ''On hold''),
     (''stuck'', ''Stuck''),
     (''in review'', ''In review''),
     (''inreview'', ''In review''),
     (''in process'', ''In process''),
     (''inprocess'', ''In process''),
     (''aml review'', ''Aml review''),
     (''amlreview'', ''Aml review''),
     (''no config'', ''No config''),
     (''noconfig'', ''No config'')]"

text \<open>
  \<open>normalize_state\<close>. The default of \<open>state_map.get\<close> is an argument, so
  \<open>state.capitalize()\<close> is evaluated before the lookup, on the value as it
  came in (neither trimmed nor lowercased): a number that is not NaN has no
  such method and the call raises \<open>AttributeError\<close>.
\<close>

fun normalize_state :: "cell \<Rightarrow> error + string" where
  "normalize_state (Flt f) =
     (if isna (Flt f) then Inr ''Unknown'' else Inl AttributeError)"
| "normalize_state (Str s) =
     (let state_lower = lower (strip s);
          dflt = capitalize s
      in Inr (case map_of state_map state_lower of Some v \<Rightarrow> v | None \<Rightarrow> dflt))"

section \<open>Tables\<close>

text \<open>
  A pandas \<open>DataFrame\<close>: the length of its row index and its columns in
  order, each a label with the cells of that column. Labels may repeat. In a
  well-formed frame every column is as long as the index.
\<close>

type_synonym series = "cell list"

record dataframe =
  nrows :: nat
  columns :: "(string \<times> series) list"

definition labels :: "dataframe \<Rightarrow> string list" where
  "labels df = map fst (columns df)"

definition wf_frame :: "dataframe \<Rightarrow> bool" where
  "wf_frame df = list_all (\<lambda>c. length (snd c) = nrows df) (columns df)"

text \<open>\<open>df[label]\<close>: the column of that label, \<open>KeyError\<close> when there is none.\<close>

definition getitem :: "dataframe \<Rightarrow> string \<Rightarrow> error + series" where
  "getitem df label =
     (case filter (\<lambda>c. fst c = label) (columns df) of
        [] \<Rightarrow> Inl KeyError
      | [c] \<Rightarrow> Inr (snd c)
      | _ \<Rightarrow> Inl DuplicateLabel)"

text \<open>\<open>df[keys]\<close> with a list of labels: for each key in turn, every column
  that carries it; \<open>KeyError\<close> when a key labels no column.\<close>

definition getitems :: "dataframe \<Rightarrow> string list \<Rightarrow> error + dataframe" where
  "getitems df keys =
     (if \<exists>k \<in> set keys. k \<notin> set (labels df) then Inl KeyError
      else Inr (df\<lparr>columns := concat (map (\<lambda>k. filter (\<lambda>c. fst c = k) (columns df)) keys)\<rparr>))"

text \<open>\<open>df[column] = data\<close> for a label that is there.\<close>

definition setitem :: "dataframe \<Rightarrow> string \<Rightarrow> series \<Rightarrow> dataframe" where
  "setitem df label data =
     df\<lparr>columns := map (\<lambda>c. if fst c = label then (label, data) else c) (columns df)\<rparr>"

text \<open>\<open>df[mask]\<close> with a boolean mask: the rows where the mask holds.\<close>

definition select_rows :: "bool list \<Rightarrow> 'a list \<Rightarrow> 'a list" where
  "select_rows keep xs = map snd (filter fst (zip keep xs))"

definition filter_rows :: "bool list \<Rightarrow> dataframe \<Rightarrow> dataframe" where
  "filter_rows keep df =
     \<lparr>nrows = length (filter id keep),
      columns = map (\<lambda>c. (fst c, select_rows keep (snd c))) (columns df)\<rparr>"

text \<open>\<open>df.rename(columns=mapping)\<close>.\<close>

definition rename :: "(string \<rightharpoonup> string) \<Rightarrow> dataframe \<Rightarrow> dataframe" where
  "rename mapping df =
     df\<lparr>columns := map (\<lambda>c. (case mapping (fst c) of Some r \<Rightarrow> r | None \<Rightarrow> fst c, snd c))
                       (columns df)\<rparr>"

text \<open>\<open>df.columns = df.columns.str.strip()\<close>.\<close>

definition strip_columns :: "dataframe \<Rightarrow> dataframe" where
  "strip_columns df = df\<lparr>columns := map (\<lambda>c. (strip (fst c), snd c)) (columns df)\<rparr>"

text \<open>
  \<open>pd.concat(frames, ignore_index=True)\<close>: the rows of the frames one after
  the other. The columns are the labels of all frames in the order of their
  first appearance, a frame without a label contributing NaN. Frames with a
  repeated label are only joined when all frames have the same list of labels
  (then column by column); otherwise pandas cannot reindex and raises.
\<close>

definition first_seen :: "'a list \<Rightarrow> 'a list" where
  "first_seen xs = rev (remdups (rev xs))"

definition column_or_nan :: "dataframe \<Rightarrow> string \<Rightarrow> series" where
  "column_or_nan df l =
     (case map_of (columns df) l of Some d \<Rightarrow> d | None \<Rightarrow> replicate (nrows df) (Flt NaN))"

definition pd_concat :: "dataframe list \<Rightarrow> error + dataframe" where
  "pd_concat dfs =
     (case dfs of
        [] \<Rightarrow> Inl ValueError
      | df0 # _ \<Rightarrow>
          if list_all (\<lambda>df. distinct (labels df)) dfs then
            Inr \<lparr>nrows = sum_list (map nrows dfs),
                 columns = map (\<lambda>l. (l, concat (map (\<lambda>df. column_or_nan df l) dfs)))
                               (first_seen (concat (map labels dfs)))\<rparr>
          else if list_all (\<lambda>df. labels df = labels df0) dfs then
            Inr \<lparr>nrows = sum_list (map nrows dfs),
                 columns = map (\<lambda>i. (labels df0 ! i, concat (map (\<lambda>df. snd (columns df ! i)) dfs)))
                               [0..<length (labels df0)]\<rparr>
          else Inl InvalidIndexError)"

text \<open>\<open>series.apply(f)\<close>: \<open>f\<close> on every cell in order; the first exception ends it.\<close>

fun series_apply :: "(cell \<Rightarrow> error + 'b) \<Rightarrow> series \<Rightarrow> error + 'b list" where
  "series_apply f [] = Inr []"
| "series_apply f (c # cs) =
     (case f c of
        Inl e \<Rightarrow> Inl e
      | Inr v \<Rightarrow> (case series_apply f cs of Inl e \<Rightarrow> Inl e | Inr vs \<Rightarrow> Inr (v # vs)))"

text \<open>
  \<open>pd.to_numeric(series, errors='coerce')\<close>: a number stays, a string becomes
  what the parser of pandas reads in it, NaN when it reads no number. That
  parser is a parameter \<open>str_to_num\<close> of the model. \<open>fillna(0)\<close> then replaces
  NaN, and only NaN, by 0.
\<close>

fun to_numeric :: "(string \<Rightarrow> fl) \<Rightarrow> cell \<Rightarrow> fl" where
  "to_numeric str_to_num (Flt f) = f"
| "to_numeric str_to_num (Str s) = str_to_num s"

fun fillna0 :: "fl \<Rightarrow> fl" where
  "fillna0 NaN = Fin 0"
| "fillna0 f = f"

text \<open>\<open>series.sum()\<close> of a column of numbers: NaN is skipped, the empty sum is 0.\<close>

fun floats_of :: "series \<Rightarrow> fl list" where
  "floats_of [] = []"
| "floats_of (Flt f # cs) = f # floats_of cs"
| "floats_of (Str s # cs) = floats_of cs"

definition series_sum :: "series \<Rightarrow> error + fl" where
  "series_sum s =
     (if length (floats_of s) \<noteq> length s then Inl NonNumeric
      else Inr (fold (\<lambda>f acc. fl_add acc f) (filter (\<lambda>f. f \<noteq> NaN) (floats_of s)) (Fin 0)))"

text \<open>
  \<open>series.value_counts().to_dict()\<close> and
  \<open>df.groupby(key)[column].sum().to_dict()\<close>: one entry for every distinct
  value that is not NaN. A dictionary is an association list with distinct
  keys; the order of its entries is not modelled.
\<close>

definition value_counts :: "series \<Rightarrow> (cell \<times> nat) list" where
  "value_counts s =
     map (\<lambda>k. (k, length (filter (\<lambda>c. c = k) s))) (remdups (filter (\<lambda>c. \<not> isna c) s))"

fun sum_groups :: "cell list \<Rightarrow> series \<Rightarrow> series \<Rightarrow> error + (cell \<times> fl) list" where
  "sum_groups [] keycol valcol = Inr []"
| "sum_groups (k # ks) keycol valcol =
     (case series_sum (select_rows (map (\<lambda>c. c = k) keycol) valcol) of
        Inl e \<Rightarrow> Inl e
      | Inr v \<Rightarrow> (case sum_groups ks keycol valcol of
                   Inl e \<Rightarrow> Inl e
                 | Inr rest \<Rightarrow> Inr ((k, v) # rest)))"

definition groupby_sum :: "series \<Rightarrow> series \<Rightarrow> error + (cell \<times> fl) list" where
  "groupby_sum keycol valcol = sum_groups (remdups (filter (\<lambda>c. \<not> isna c) keycol)) keycol valcol"

text \<open>\<open>round(x, 2)\<close>: to two decimals, a tie going to the even neighbour.\<close>

definition py_round2 :: "rat \<Rightarrow> rat" where
  "py_round2 x =
     (let y = x * 100; f = \<lfloor>y\<rfloor>; d = y - of_int f
      in of_int (if d < 1 / 2 then f else if 1 / 2 < d then f + 1
                 else if even f then f else f + 1) / 100)"

section \<open>Uploaded files\<close>

text \<open>
  An uploaded file has a name; what \<open>pd.read_csv\<close> and \<open>pd.read_excel\<close> make
  of its content (a frame, or an exception) is given with the file, since both
  readers are outside the program.
\<close>

record upload =
  name :: string
  read_csv :: "error + dataframe"
  read_excel :: "error + dataframe"

record stats =
  merchant_id :: cell
  total_txns :: nat
  success_txns :: nat
  success_rate :: rat
  total_amount :: fl
  success_amount :: fl
  state_counts :: "(cell \<times> nat) list"
  state_amounts :: "(cell \<times> fl) list"

section \<open>Dashboard\_New.py: schema, ingestion, statistics\<close>

definition REQUIRED_COLUMNS :: "string list" where
  "REQUIRED_COLUMNS =
     [''Account'', ''Merchant ID'', ''Amount'', ''Remit. Timestamp'', ''Issue Timestamp'', ''State'']"

text \<open>The loop that fills \<open>column_mapping\<close>: for each column the first required
  name that equals it up to case, written under the column's own name.\<close>

definition column_mapping :: "string list \<Rightarrow> (string \<rightharpoonup> string)" where
  "column_mapping cols =
     fold (\<lambda>col m. case find (\<lambda>req_col. lower col = lower req_col) REQUIRED_COLUMNS of
                      Some req_col \<Rightarrow> m(col \<mapsto> req_col)
                    | None \<Rightarrow> m)
          cols Map.empty"

definition clean_dataframe :: "dataframe \<Rightarrow> error + dataframe" where
  "clean_dataframe df =
     (let df1 = strip_columns df;
          df2 = rename (column_mapping (labels df1)) df1;
          existing_cols = filter (\<lambda>col. col \<in> set (labels df2)) REQUIRED_COLUMNS
      in getitems df2 existing_cols)"

text \<open>The body of the \<open>try\<close> in \<open>process_files\<close>; an exception there is
  reported with \<open>st.error\<close> and the file contributes nothing.\<close>

definition load_file :: "upload \<Rightarrow> error + dataframe" where
  "load_file file =
     (case (if endswith (name file) ''.csv'' then read_csv file else read_excel file) of
        Inl e \<Rightarrow> Inl e
      | Inr df \<Rightarrow> clean_dataframe df)"

definition all_data :: "upload list \<Rightarrow> dataframe list" where
  "all_data uploaded_files =
     concat (map (\<lambda>file. case load_file file of Inl e \<Rightarrow> [] | Inr df \<Rightarrow> [df]) uploaded_files)"

definition normalize_states :: "dataframe \<Rightarrow> error + dataframe" where
  "normalize_states combined_df =
     (if ''State'' \<in> set (labels combined_df) then
        (case getitem combined_df ''State'' of
           Inl e \<Rightarrow> Inl e
         | Inr col \<Rightarrow>
             (case series_apply normalize_state col of
                Inl e \<Rightarrow> Inl e
              | Inr vs \<Rightarrow> Inr (setitem combined_df ''State'' (map Str vs))))
      else Inr combined_df)"

definition convert_amounts :: "(string \<Rightarrow> fl) \<Rightarrow> dataframe \<Rightarrow> error + dataframe" where
  "convert_amounts str_to_num combined_df =
     (if ''Amount'' \<in> set (labels combined_df) then
        (case getitem combined_df ''Amount'' of
           Inl e \<Rightarrow> Inl e
         | Inr col \<Rightarrow>
             Inr (setitem combined_df ''Amount''
                    (map (\<lambda>c. Flt (fillna0 (to_numeric str_to_num c))) col)))
      else Inr combined_df)"

text \<open>\<open>process_files\<close>: \<open>None\<close> when no file came through, else the combined
  table with its states normalized and its amounts made numeric.\<close>

definition process_files :: "(string \<Rightarrow> fl) \<Rightarrow> upload list \<Rightarrow> error + dataframe option" where
  "process_files str_to_num uploaded_files =
     (let all_data = all_data uploaded_files in
      if all_data = [] then Inr None
      else
        (case pd_concat all_data of
           Inl e \<Rightarrow> Inl e
         | Inr combined_df \<Rightarrow>
             (case normalize_states combined_df of
                Inl e \<Rightarrow> Inl e
              | Inr df1 \<Rightarrow>
                  (case convert_amounts str_to_num df1 of
                     Inl e \<Rightarrow> Inl e
                   | Inr df2 \<Rightarrow> Inr (Some df2)))))"

definition calculate_merchant_stats :: "dataframe \<Rightarrow> cell \<Rightarrow> error + stats" where
  "calculate_merchant_stats df merchant =
     (case getitem df ''Merchant ID'' of
        Inl e \<Rightarrow> Inl e
      | Inr mcol \<Rightarrow>
      let merchant_data = filter_rows (map (\<lambda>c. cell_eq c merchant) mcol) df;
          total_txns = nrows merchant_data
      in
      (case getitem merchant_data ''State'' of
        Inl e \<Rightarrow> Inl e
      | Inr scol \<Rightarrow>
      let remitted = filter_rows (map (\<lambda>c. cell_eq c (Str ''Remitted'')) scol) merchant_data;
          success_txns = nrows remitted;
          success_rate = (if total_txns > 0
                          then of_nat success_txns / of_nat total_txns * 100 else 0)
      in
      (case getitem merchant_data ''Amount'' of
        Inl e \<Rightarrow> Inl e
      | Inr acol \<Rightarrow>
      (case series_sum acol of
        Inl e \<Rightarrow> Inl e
      | Inr total_amount' \<Rightarrow>
      (case getitem remitted ''Amount'' of
        Inl e \<Rightarrow> Inl e
      | Inr racol \<Rightarrow>
      (case series_sum racol of
        Inl e \<Rightarrow> Inl e
      | Inr success_amount' \<Rightarrow>
      (case groupby_sum scol acol of
        Inl e \<Rightarrow> Inl e
      | Inr state_amounts' \<Rightarrow>
          Inr \<lparr>merchant_id = merchant,
               total_txns = total_txns,
               success_txns = success_txns,
               success_rate = py_round2 success_rate,
               total_amount = total_amount',
               success_amount = success_amount',
               state_counts = value_counts scol,
               state_amounts = state_amounts'\<rparr>)))))))"

section \<open>Dashboard\_New\_PDF1.py: schema, ingestion, statistics\<close>

definition pdf_REQUIRED_COLUMNS :: "string list" where
  "pdf_REQUIRED_COLUMNS =
     [''Account'', ''Merchant ID'', ''Amount'', ''Remit. Timestamp'', ''Issue Timestamp'', ''State'']"

definition pdf_state_map :: "(string \<times> string) list" where
  "pdf_state_map =
    [(''remitted'', ''Remitted''),
     (''published'', ''Published''),
     (''rejected'', ''Rejected''),
     (''on hold'', ''On hold''),
     (''onhold'', ''On hold''),
     (''stuck'', ''Stuck''),
     (''in review'', ''In review''),
     (''inreview'', ''In review''),
     (''in process'', ''In process''),
     (''inprocess'', ''In process''),
     (''aml review'', ''Aml review''),
     (''amlreview'', ''Aml review''),
     (''no config'', ''No config''),
     (''noconfig'', ''No config'')]"

fun pdf_normalize_state :: "cell \<Rightarrow> error + string" where
  "pdf_normalize_state (Flt f) =
     (if isna (Flt f) then Inr ''Unknown'' else Inl AttributeError)"
| "pdf_normalize_state (Str s) =
     (let state_lower = lower (strip s);
          dflt = capitalize s
      in Inr (case map_of pdf_state_map state_lower of Some v \<Rightarrow> v | None \<Rightarrow> dflt))"

text \<open>The loop that fills \<open>column_mapping\<close>: for each column the first required
  name that equals it up to case, written under the column's own name.\<close>

definition pdf_column_mapping :: "string list \<Rightarrow> (string \<rightharpoonup> string)" where
  "pdf_column_mapping cols =
     fold (\<lambda>col m. case find (\<lambda>req_col. lower col = lower req_col) pdf_REQUIRED_COLUMNS of
                      Some req_col \<Rightarrow> m(col \<mapsto> req_col)
                    | None \<Rightarrow> m)
          cols Map.empty"

definition pdf_clean_dataframe :: "dataframe \<Rightarrow> error + dataframe" where
  "pdf_clean_dataframe df =
     (let df1 = strip_columns df;
          df2 = rename (pdf_column_mapping (labels df1)) df1;
          existing_cols = filter (\<lambda>col. col \<in> set (labels df2)) pdf_REQUIRED_COLUMNS
      in getitems df2 existing_cols)"

text \<open>The body of the \<open>try\<close> in \<open>process_files\<close>; an exception there is
  reported with \<open>st.error\<close> and the file contributes nothing.\<close>

definition pdf_load_file :: "upload \<Rightarrow> error + dataframe" where
  "pdf_load_file file =
     (case (if endswith (name file) ''.csv'' then read_csv file else read_excel file) of
        Inl e \<Rightarrow> Inl e
      | Inr df \<Rightarrow> pdf_clean_dataframe df)"

definition pdf_all_data :: "upload list \<Rightarrow> dataframe list" where
  "pdf_all_data uploaded_files =
     concat (map (\<lambda>file. case pdf_load_file file of Inl e \<Rightarrow> [] | Inr df \<Rightarrow> [df]) uploaded_files)"

definition pdf_normalize_states :: "dataframe \<Rightarrow> error + dataframe" where
  "pdf_normalize_states combined_df =
     (if ''State'' \<in> set (labels combined_df) then
        (case getitem combined_df ''State'' of
           Inl e \<Rightarrow> Inl e
         | Inr col \<Rightarrow>
             (case series_apply pdf_normalize_state col of
                Inl e \<Rightarrow> Inl e
              | Inr vs \<Rightarrow> Inr (setitem combined_df ''State'' (map Str vs))))
      else Inr combined_df)"

definition pdf_convert_amounts :: "(string \<Rightarrow> fl) \<Rightarrow> dataframe \<Rightarrow> error + dataframe" where
  "pdf_convert_amounts str_to_num combined_df =
     (if ''Amount'' \<in> set (labels combined_df) then
        (case getitem combined_df ''Amount'' of
           Inl e \<Rightarrow> Inl e
         | Inr col \<Rightarrow>
             Inr (setitem combined_df ''Amount''
                    (map (\<lambda>c. Flt (fillna0 (to_numeric str_to_num c))) col)))
      else Inr combined_df)"

text \<open>\<open>process_files\<close>: \<open>None\<close> when no file came through, else the combined
  table with its states normalized and its amounts made numeric.\<close>

definition pdf_process_files :: "(string \<Rightarrow> fl) \<Rightarrow> upload list \<Rightarrow> error + dataframe option" where
  "pdf_process_files str_to_num uploaded_files =
     (let all_data = pdf_all_data uploaded_files in
      if all_data = [] then Inr None
      else
        (case pd_concat all_data of
           Inl e \<Rightarrow> Inl e
         | Inr combined_df \<Rightarrow>
             (case pdf_normalize_states combined_df of
                Inl e \<Rightarrow> Inl e
              | Inr df1 \<Rightarrow>
                  (case pdf_convert_amounts str_to_num df1 of
                     Inl e \<Rightarrow> Inl e
                   | Inr df2 \<Rightarrow> Inr (Some df2)))))"

definition pdf_calculate_merchant_stats :: "dataframe \<Rightarrow> cell \<Rightarrow> error + stats" where
  "pdf_calculate_merchant_stats df merchant =
     (case getitem df ''Merchant ID'' of
        Inl e \<Rightarrow> Inl e
      | Inr mcol \<Rightarrow>
      let merchant_data = filter_rows (map (\<lambda>c. cell_eq c merchant) mcol) df;
          total_txns = nrows merchant_data
      in
      (case getitem merchant_data ''State'' of
        Inl e \<Rightarrow> Inl e
      | Inr scol \<Rightarrow>
      let remitted = filter_rows (map (\<lambda>c. cell_eq c (Str ''Remitted'')) scol) merchant_data;
          success_txns = nrows remitted;
          success_rate = (if total_txns > 0
                          then of_nat success_txns / of_nat total_txns * 100 else 0)
      in
      (case getitem merchant_data ''Amount'' of
        Inl e \<Rightarrow> Inl e
      | Inr acol \<Rightarrow>
      (case series_sum acol of
        Inl e \<Rightarrow> Inl e
      | Inr total_amount' \<Rightarrow>
      (case getitem remitted ''Amount'' of
        Inl e \<Rightarrow> Inl e
      | Inr racol \<Rightarrow>
      (case series_sum racol of
        Inl e \<Rightarrow> Inl e
      | Inr success_amount' \<Rightarrow>
      (case groupby_sum scol acol of
        Inl e \<Rightarrow> Inl e
      | Inr state_amounts' \<Rightarrow>
          Inr \<lparr>merchant_id = merchant,
               total_txns = total_txns,
               success_txns = success_txns,
               success_rate = py_round2 success_rate,
               total_amount = total_amount',
               success_amount = success_amount',
               state_counts = value_counts scol,
               state_amounts = state_amounts'\<rparr>)))))))"


section \<open>The overall banner of both programs\<close>

text \<open>
  The overall figures, computed in the page body of \<open>Dashboard_New.py\<close> and
  again at the top of \<open>generate_pdf_report\<close> in \<open>Dashboard_New_PDF1.py\<close>:
  row count, rows in state \<open>Remitted\<close>, their ratio in percent, and the two
  sums of \<open>Amount\<close>.
\<close>

definition overall_statistics :: "dataframe \<Rightarrow> error + (nat \<times> nat \<times> rat \<times> fl \<times> fl)" where
  "overall_statistics df =
     (let total_txns = nrows df in
      case getitem df ''State'' of
        Inl e \<Rightarrow> Inl e
      | Inr scol \<Rightarrow>
      let remitted = filter_rows (map (\<lambda>c. cell_eq c (Str ''Remitted'')) scol) df;
          success_txns = nrows remitted;
          overall_sr = (if total_txns > 0
                        then of_nat success_txns / of_nat total_txns * 100 else 0)
      in
      (case getitem df ''Amount'' of
        Inl e \<Rightarrow> Inl e
      | Inr acol \<Rightarrow>
      (case series_sum acol of
        Inl e \<Rightarrow> Inl e
      | Inr total_amount' \<Rightarrow>
      (case getitem remitted ''Amount'' of
        Inl e \<Rightarrow> Inl e
      | Inr racol \<Rightarrow>
      (case series_sum racol of
        Inl e \<Rightarrow> Inl e
      | Inr success_amount' \<Rightarrow>
          Inr (total_txns, success_txns, overall_sr, total_amount', success_amount'))))))"

definition pdf_overall_statistics :: "dataframe \<Rightarrow> error + (nat \<times> nat \<times> rat \<times> fl \<times> fl)" where
  "pdf_overall_statistics df =
     (let total_txns = nrows df in
      case getitem df ''State'' of
        Inl e \<Rightarrow> Inl e
      | Inr scol \<Rightarrow>
      let remitted = filter_rows (map (\<lambda>c. cell_eq c (Str ''Remitted'')) scol) df;
          success_txns = nrows remitted;
          overall_sr = (if total_txns > 0
                        then of_nat success_txns / of_nat total_txns * 100 else 0)
      in
      (case getitem df ''Amount'' of
        Inl e \<Rightarrow> Inl e
      | Inr acol \<Rightarrow>
      (case series_sum acol of
        Inl e \<Rightarrow> Inl e
      | Inr total_amount' \<Rightarrow>
      (case getitem remitted ''Amount'' of
        Inl e \<Rightarrow> Inl e
      | Inr racol \<Rightarrow>
      (case series_sum racol of
        Inl e \<Rightarrow> Inl e
      | Inr success_amount' \<Rightarrow>
          Inr (total_txns, success_txns, overall_sr, total_amount', success_amount'))))))"

section \<open>Sample inputs\<close>

text \<open>A sample of the string parser of \<open>pd.to_numeric\<close> for the examples: it
  reads the two strings below and no other.\<close>

definition sample_str_to_num :: "string \<Rightarrow> fl" where
  "sample_str_to_num s =
     (if s = ''12.5'' then Fin (25 / 2) else if s = ''inf'' then PInf else NaN)"

text \<open>A cell holds a finite number.\<close>

fun is_finite :: "cell \<Rightarrow> bool" where
  "is_finite (Flt (Fin q)) = True"
| "is_finite _ = False"


section \<open>The specification's wording of the fallback label\<close>


section \<open>Properties of the state normalizer\<close>

lemma is_space_cases:
  assumes "is_space c"
  obtains "c = CHR 0x09" | "c = CHR 0x0A" | "c = CHR 0x0B" | "c = CHR 0x0C" | "c = CHR 0x0D"
    | "c = CHR 0x1C" | "c = CHR 0x1D" | "c = CHR 0x1E" | "c = CHR 0x1F" | "c = CHR '' ''"
  using assms unfolding is_space_def whitespace_def by fastforce

lemma is_space_upper: "is_space c \<Longrightarrow> upper_char c = c"
  by (erule is_space_cases) (simp_all add: upper_char_def upper_table_def)

lemma is_space_lower: "is_space c \<Longrightarrow> lower_char c = c"
  by (erule is_space_cases) (simp_all add: lower_char_def lower_table_def)

lemma strip_Nil_all_space:
  assumes "strip s = []"
  shows "\<forall>c \<in> set s. is_space c"
proof -
  from assms have a: "dropWhile is_space (rev (dropWhile is_space s)) = []"
    by (simp add: strip_def)
  have "dropWhile is_space s = []"
  proof (rule ccontr)
    assume n: "dropWhile is_space s \<noteq> []"
    then have "\<not> is_space (hd (dropWhile is_space s))"
      by (rule hd_dropWhile)
    moreover have "hd (dropWhile is_space s) \<in> set (rev (dropWhile is_space s))"
      using n by simp
    ultimately show False using a by (auto simp: dropWhile_eq_Nil_conv)
  qed
  then show ?thesis by (simp add: dropWhile_eq_Nil_conv)
qed

lemma all_space_capitalize: "\<forall>c \<in> set s. is_space c \<Longrightarrow> capitalize s = s"
  by (cases s) (auto simp: is_space_upper is_space_lower map_idI)

lemma state_map_Nil: "map_of state_map [] = None"
  by (simp add: state_map_def)

lemma strip_two_spaces: "strip ''  '' = []"
  by (simp add: strip_def is_space_def whitespace_def)




text \<open>
  C4, as the code has it. A null value maps to \<open>Unknown\<close>. The empty string
  and every string of whitespace only are not null: they come back unchanged.
\<close>

theorem normalize_state_null_unknown:
  "normalize_state (Flt NaN) = Inr ''Unknown'' \<and>
   (strip s = [] \<longrightarrow> normalize_state (Str s) = Inr s)"
proof (intro conjI impI)
  show "normalize_state (Flt NaN) = Inr ''Unknown''" by simp
next
  assume e: "strip s = []"
  then have sp: "\<forall>c \<in> set s. is_space c" by (rule strip_Nil_all_space)
  show "normalize_state (Str s) = Inr s"
    using e by (simp add: all_space_capitalize [OF sp] lower_def state_map_Nil)
qed

theorem normalize_state_null_unknown_witness:
  "normalize_state (Flt NaN) = Inr ''Unknown'' \<and> strip ''  '' = [] \<and>
   normalize_state (Str ''  '') = Inr ''  ''"
  using normalize_state_null_unknown [of "''  ''"] strip_two_spaces
  by blast

text \<open>C4 as the specification states it fails at the empty string, which
  comes back as the empty string and not as \<open>Unknown\<close>.\<close>

theorem normalize_state_empty_counterexample:
  "normalize_state (Str []) = Inr [] \<and> normalize_state (Str []) \<noteq> Inr ''Unknown''"
  by (simp add: strip_def lower_def state_map_def)

section \<open>Properties of the merchant statistics\<close>

lemma calculate_merchant_stats_Inr:
  assumes "calculate_merchant_stats df m = Inr st"
  obtains mcol scol acol where
    "getitem df ''Merchant ID'' = Inr mcol"
    "getitem (filter_rows (map (\<lambda>c. cell_eq c m) mcol) df) ''State'' = Inr scol"
    "getitem (filter_rows (map (\<lambda>c. cell_eq c m) mcol) df) ''Amount'' = Inr acol"
    "total_txns st = length (filter id (map (\<lambda>c. cell_eq c m) mcol))"
    "success_txns st = length (filter id (map (\<lambda>c. cell_eq c (Str ''Remitted'')) scol))"
    "success_rate st = py_round2 (if total_txns st > 0
        then of_nat (success_txns st) / of_nat (total_txns st) * 100 else 0)"
    "state_counts st = value_counts scol"
    "groupby_sum scol acol = Inr (state_amounts st)"
    "series_sum acol = Inr (total_amount st)"
  using assms unfolding calculate_merchant_stats_def Let_def
  by (auto split: sum.splits simp: filter_rows_def)

lemma length_select_rows_le: "length (select_rows keep xs) \<le> length (filter id keep)"
  unfolding select_rows_def
proof (induction keep arbitrary: xs)
  case Nil
  then show ?case by simp
next
  case (Cons k ks)
  then show ?case by (cases xs) (auto simp: le_SucI)
qed

lemma length_select_rows_eq:
  "length xs = length keep \<Longrightarrow> length (select_rows keep xs) = length (filter id keep)"
  unfolding select_rows_def
proof (induction keep arbitrary: xs)
  case Nil
  then show ?case by simp
next
  case (Cons k ks)
  then show ?case by (cases xs) auto
qed

lemma getitem_Inr_mem: "getitem df l = Inr d \<Longrightarrow> (l, d) \<in> set (columns df)"
proof -
  assume a: "getitem df l = Inr d"
  then obtain c where c: "filter (\<lambda>c. fst c = l) (columns df) = [c]" "snd c = d"
    unfolding getitem_def by (auto split: list.splits)
  then have "c \<in> set (filter (\<lambda>c. fst c = l) (columns df))" by simp
  then have "c \<in> set (columns df)" "fst c = l" by auto
  with c show ?thesis by (cases c) auto
qed

lemma getitem_filter_rows:
  assumes "getitem (filter_rows keep df) l = Inr d"
  shows "\<exists>d0. getitem df l = Inr d0 \<and> d = select_rows keep d0"
proof -
  have f: "filter (\<lambda>c. fst c = l) (columns (filter_rows keep df))
     = map (\<lambda>c. (fst c, select_rows keep (snd c))) (filter (\<lambda>c. fst c = l) (columns df))"
    by (simp add: filter_rows_def filter_map o_def)
  from assms obtain c where "filter (\<lambda>c. fst c = l) (columns (filter_rows keep df)) = [c]" "snd c = d"
    unfolding getitem_def by (auto split: list.splits)
  with f obtain c0 where "filter (\<lambda>c. fst c = l) (columns df) = [c0]" "d = select_rows keep (snd c0)"
    by (auto simp: map_eq_Cons_conv)
  then show ?thesis by (simp add: getitem_def)
qed

lemma py_round2_zero: "py_round2 0 = 0"
  by (simp add: py_round2_def)

lemma py_round2_range:
  assumes "0 \<le> x" "x \<le> 100"
  shows "0 \<le> py_round2 x \<and> py_round2 x \<le> 100"
proof -
  define y where "y = x * 100"
  define f where "f = \<lfloor>y\<rfloor>"
  define n where "n = (if y - of_int f < 1 / 2 then f else if 1 / 2 < y - of_int f then f + 1
                 else if even f then f else f + 1)"
  have y: "0 \<le> y" "y \<le> 10000" using assms by (simp_all add: y_def)
  have f0: "0 \<le> f" using y by (simp add: f_def)
  have fy: "of_int f \<le> y" by (simp add: f_def)
  have f1: "f \<le> 10000" using y unfolding f_def by (simp add: floor_le_iff)
  have n1: "n \<le> 10000"
  proof (cases "f = 10000")
    case True
    then have "y - of_int f \<le> 0" using y by simp
    then have "y - of_int f < 1 / 2" by simp
    then show ?thesis using True by (simp add: n_def)
  next
    case False
    then have "f + 1 \<le> 10000" using f1 by simp
    then show ?thesis using f1 unfolding n_def by (simp split: if_splits)
  qed
  have n0: "0 \<le> n" using f0 unfolding n_def by auto
  have "py_round2 x = of_int n / 100"
    by (simp add: py_round2_def Let_def y_def f_def n_def)
  moreover have "(0::rat) \<le> of_int n / 100" using n0 by simp
  moreover have "(of_int n :: rat) \<le> 10000" using n1 by (metis of_int_le_iff of_int_numeral)
  then have "(of_int n :: rat) / 100 \<le> 100" by simp
  ultimately show ?thesis by simp
qed

text \<open>
  C1, as the code has it. Whenever \<open>calculate_merchant_stats\<close> returns, its
  \<open>success_rate\<close> lies between 0 and 100; it is 0 when the merchant has no
  rows, and also when none of the merchant's rows is in state \<open>Remitted\<close>.
\<close>

theorem success_rate_range:
  assumes "calculate_merchant_stats df m = Inr st"
  shows "0 \<le> success_rate st \<and> success_rate st \<le> 100 \<and>
    (total_txns st = 0 \<longrightarrow> success_rate st = 0) \<and>
    (success_txns st = 0 \<longrightarrow> success_rate st = 0)"
proof -
  from assms obtain mcol scol where
    s: "getitem (filter_rows (map (\<lambda>c. cell_eq c m) mcol) df) ''State'' = Inr scol"
    and t: "total_txns st = length (filter id (map (\<lambda>c. cell_eq c m) mcol))"
    and u: "success_txns st = length (filter id (map (\<lambda>c. cell_eq c (Str ''Remitted'')) scol))"
    and r: "success_rate st = py_round2 (if total_txns st > 0
        then of_nat (success_txns st) / of_nat (total_txns st) * 100 else 0)"
    by (rule calculate_merchant_stats_Inr)
  from getitem_filter_rows [OF s] obtain d0 where
    "scol = select_rows (map (\<lambda>c. cell_eq c m) mcol) d0" by blast
  then have "length scol \<le> total_txns st"
    using length_select_rows_le [of "map (\<lambda>c. cell_eq c m) mcol" d0] t by simp
  moreover have "success_txns st \<le> length scol"
    using u by (simp add: filter_map)
  ultimately have le: "success_txns st \<le> total_txns st" by simp
  define x :: rat where "x = (if total_txns st > 0
        then of_nat (success_txns st) / of_nat (total_txns st) * 100 else 0)"
  have x0: "0 \<le> x" by (simp add: x_def)
  have "(of_nat (success_txns st) :: rat) \<le> of_nat (total_txns st)"
    using le by simp
  then have q: "(of_nat (success_txns st) :: rat) / of_nat (total_txns st) \<le> 1" if "total_txns st > 0"
    using that by (simp add: divide_le_eq_1)
  have x1: "x \<le> 100"
  proof (cases "total_txns st > 0")
    case True
    have "(of_nat (success_txns st) :: rat) / of_nat (total_txns st) * 100 \<le> 1 * 100"
      using q [OF True] by (rule mult_right_mono) simp
    then show ?thesis using True by (simp only: x_def if_True mult_1)
  next
    case False
    then show ?thesis by (simp add: x_def)
  qed
  have rx: "success_rate st = py_round2 x" using r by (simp add: x_def)
  have "x = 0" if "total_txns st = 0 \<or> success_txns st = 0"
    using that by (auto simp: x_def)
  then show ?thesis using py_round2_range [OF x0 x1] rx py_round2_zero by auto
qed

theorem success_rate_range_witness:
  "calculate_merchant_stats
     \<lparr>nrows = 3, columns = [(''Merchant ID'', [Str ''M1'', Str ''M1'', Str ''M2'']),
        (''Amount'', [Flt (Fin 10), Flt (Fin 5), Flt (Fin 7)]),
        (''State'', [Str ''Remitted'', Str ''Rejected'', Str ''Remitted''])]\<rparr> (Str ''M1'')
   = Inr \<lparr>merchant_id = Str ''M1'', total_txns = 2, success_txns = 1,
        success_rate = 50, total_amount = Fin 15, success_amount = Fin 10,
        state_counts = [(Str ''Remitted'', 1), (Str ''Rejected'', 1)],
        state_amounts = [(Str ''Remitted'', Fin 10), (Str ''Rejected'', Fin 5)]\<rparr>
   \<and> (0::rat) \<le> 50 \<and> (50::rat) \<le> 100"
proof -
  have c: "calculate_merchant_stats
     \<lparr>nrows = 3, columns = [(''Merchant ID'', [Str ''M1'', Str ''M1'', Str ''M2'']),
        (''Amount'', [Flt (Fin 10), Flt (Fin 5), Flt (Fin 7)]),
        (''State'', [Str ''Remitted'', Str ''Rejected'', Str ''Remitted''])]\<rparr> (Str ''M1'')
   = Inr \<lparr>merchant_id = Str ''M1'', total_txns = 2, success_txns = 1,
        success_rate = 50, total_amount = Fin 15, success_amount = Fin 10,
        state_counts = [(Str ''Remitted'', 1), (Str ''Rejected'', 1)],
        state_amounts = [(Str ''Remitted'', Fin 10), (Str ''Rejected'', Fin 5)]\<rparr>"
    by code_simp
  from success_rate_range [OF c] c show ?thesis by simp
qed

text \<open>
  C1 as the specification states it fails in one direction: a merchant with
  one row, in state \<open>Rejected\<close>, has \<open>total_txns = 1\<close> and
  \<open>success_rate = 0\<close>, so a rate of 0 does not imply an empty merchant.
\<close>

theorem success_rate_zero_counterexample:
  "calculate_merchant_stats
     \<lparr>nrows = 1, columns = [(''Merchant ID'', [Str ''M1'']),
        (''Amount'', [Flt (Fin 10)]), (''State'', [Str ''Rejected''])]\<rparr> (Str ''M1'')
   = Inr \<lparr>merchant_id = Str ''M1'', total_txns = 1, success_txns = 0,
        success_rate = 0, total_amount = Fin 10, success_amount = Fin 0,
        state_counts = [(Str ''Rejected'', 1)],
        state_amounts = [(Str ''Rejected'', Fin 10)]\<rparr>"
  by code_simp

lemma set_select_rows: "set (select_rows keep xs) \<subseteq> set xs"
  unfolding select_rows_def by (auto dest: set_zip_rightD)

lemma wf_frame_length: "wf_frame df \<Longrightarrow> getitem df l = Inr d \<Longrightarrow> length d = nrows df"
  using getitem_Inr_mem [of df l d] by (auto simp: wf_frame_def list_all_iff)

lemma count_list_filter: "count_list xs k = length (filter (\<lambda>c. c = k) xs)"
  by (induction xs) auto

lemma value_counts_sum:
  "sum_list (map snd (value_counts s)) = length (filter (\<lambda>c. \<not> isna c) s)"
proof -
  define vals where "vals = filter (\<lambda>c. \<not> isna c) s"
  have same: "length (filter (\<lambda>c. c = k) s) = count_list vals k" if "k \<in> set vals" for k
  proof -
    have "filter (\<lambda>c. c = k) s = filter (\<lambda>c. c = k) vals"
      using that unfolding vals_def by (auto simp: filter_filter intro: filter_cong)
    then show ?thesis
      by (simp add: count_list_filter)
  qed
  have "sum_list (map snd (value_counts s))
      = sum_list (map (\<lambda>k. length (filter (\<lambda>c. c = k) s)) (remdups vals))"
    by (simp add: value_counts_def vals_def o_def)
  also have "\<dots> = sum (\<lambda>k. length (filter (\<lambda>c. c = k) s)) (set vals)"
    by (simp add: sum_list_distinct_conv_sum_set)
  also have "\<dots> = sum (count_list vals) (set vals)"
    by (rule sum.cong) (simp_all add: same)
  also have "\<dots> = length vals"
    by (rule sum_count_set) simp_all
  finally show ?thesis by (simp add: vals_def)
qed

lemma value_counts_sum_no_null:
  "\<forall>c \<in> set s. \<not> isna c \<Longrightarrow> sum_list (map snd (value_counts s)) = length s"
  by (simp add: value_counts_sum)

text \<open>
  C2. In a well-formed table whose \<open>State\<close> column holds no null (as after
  normalization), the values of \<open>state_counts\<close> add up to \<open>total_txns\<close> for
  every merchant, and the counts of the whole \<open>State\<close> column add up to the
  number of rows of the table.
\<close>

theorem state_counts_sum:
  assumes "wf_frame df"
    and "getitem df ''State'' = Inr scol0"
    and "\<forall>c \<in> set scol0. \<not> isna c"
    and "calculate_merchant_stats df m = Inr st"
  shows "sum_list (map snd (state_counts st)) = total_txns st \<and>
         sum_list (map snd (value_counts scol0)) = nrows df"
proof -
  from assms(4) obtain mcol scol where
    mc: "getitem df ''Merchant ID'' = Inr mcol"
    and s: "getitem (filter_rows (map (\<lambda>c. cell_eq c m) mcol) df) ''State'' = Inr scol"
    and t: "total_txns st = length (filter id (map (\<lambda>c. cell_eq c m) mcol))"
    and v: "state_counts st = value_counts scol"
    by (rule calculate_merchant_stats_Inr)
  from getitem_filter_rows [OF s] assms(2)
  have sel: "scol = select_rows (map (\<lambda>c. cell_eq c m) mcol) scol0" by simp
  have len0: "length scol0 = nrows df" "length mcol = nrows df"
    using assms(1,2) mc by (simp_all add: wf_frame_length)
  then have "length scol = total_txns st"
    using sel t by (simp add: length_select_rows_eq)
  moreover have "\<forall>c \<in> set scol. \<not> isna c"
  proof
    fix c assume "c \<in> set scol"
    then have "c \<in> set (select_rows (map (\<lambda>c. cell_eq c m) mcol) scol0)"
      by (simp only: sel [symmetric])
    then have "c \<in> set scol0"
      by (rule subsetD [OF set_select_rows])
    then show "\<not> isna c" using assms(3) by simp
  qed
  ultimately have "sum_list (map snd (state_counts st)) = total_txns st"
    using v by (simp add: value_counts_sum_no_null)
  moreover have "sum_list (map snd (value_counts scol0)) = nrows df"
    using assms(3) len0 by (simp add: value_counts_sum_no_null)
  ultimately show ?thesis by simp
qed

theorem state_counts_sum_witness:
  "wf_frame
     \<lparr>nrows = 3, columns = [(''Merchant ID'', [Str ''M1'', Str ''M1'', Str ''M2'']),
        (''Amount'', [Flt (Fin 10), Flt (Fin 5), Flt (Fin 7)]),
        (''State'', [Str ''Remitted'', Str ''Rejected'', Str ''Remitted''])]\<rparr> \<and>
   calculate_merchant_stats
     \<lparr>nrows = 3, columns = [(''Merchant ID'', [Str ''M1'', Str ''M1'', Str ''M2'']),
        (''Amount'', [Flt (Fin 10), Flt (Fin 5), Flt (Fin 7)]),
        (''State'', [Str ''Remitted'', Str ''Rejected'', Str ''Remitted''])]\<rparr> (Str ''M1'')
   = Inr \<lparr>merchant_id = Str ''M1'', total_txns = 2, success_txns = 1,
        success_rate = 50, total_amount = Fin 15, success_amount = Fin 10,
        state_counts = [(Str ''Remitted'', 1), (Str ''Rejected'', 1)],
        state_amounts = [(Str ''Remitted'', Fin 10), (Str ''Rejected'', Fin 5)]\<rparr> \<and>
   sum_list (map snd [(Str ''Remitted'', 1::nat), (Str ''Rejected'', 1)]) = 2 \<and>
   sum_list (map snd (value_counts [Str ''Remitted'', Str ''Rejected'', Str ''Remitted''])) = 3"
proof -
  have w: "wf_frame
     \<lparr>nrows = 3, columns = [(''Merchant ID'', [Str ''M1'', Str ''M1'', Str ''M2'']),
        (''Amount'', [Flt (Fin 10), Flt (Fin 5), Flt (Fin 7)]),
        (''State'', [Str ''Remitted'', Str ''Rejected'', Str ''Remitted''])]\<rparr>"
    by code_simp
  have g: "getitem
     \<lparr>nrows = 3, columns = [(''Merchant ID'', [Str ''M1'', Str ''M1'', Str ''M2'']),
        (''Amount'', [Flt (Fin 10), Flt (Fin 5), Flt (Fin 7)]),
        (''State'', [Str ''Remitted'', Str ''Rejected'', Str ''Remitted''])]\<rparr> ''State''
     = Inr [Str ''Remitted'', Str ''Rejected'', Str ''Remitted'']"
    by code_simp
  have n: "\<forall>c \<in> set [Str ''Remitted'', Str ''Rejected'', Str ''Remitted'']. \<not> isna c"
    by simp
  have c: "calculate_merchant_stats
     \<lparr>nrows = 3, columns = [(''Merchant ID'', [Str ''M1'', Str ''M1'', Str ''M2'']),
        (''Amount'', [Flt (Fin 10), Flt (Fin 5), Flt (Fin 7)]),
        (''State'', [Str ''Remitted'', Str ''Rejected'', Str ''Remitted''])]\<rparr> (Str ''M1'')
   = Inr \<lparr>merchant_id = Str ''M1'', total_txns = 2, success_txns = 1,
        success_rate = 50, total_amount = Fin 15, success_amount = Fin 10,
        state_counts = [(Str ''Remitted'', 1), (Str ''Rejected'', 1)],
        state_amounts = [(Str ''Remitted'', Fin 10), (Str ''Rejected'', Fin 5)]\<rparr>"
    by code_simp
  from state_counts_sum [OF w g n c] w c show ?thesis by simp
qed

lemma sum_groups_keys: "sum_groups ks keycol valcol = Inr r \<Longrightarrow> map fst r = ks"
  by (induction ks arbitrary: r) (auto split: sum.splits)

lemma sum_groups_values:
  "sum_groups ks keycol valcol = Inr r \<Longrightarrow> (k, v) \<in> set r \<Longrightarrow>
     series_sum (select_rows (map (\<lambda>c. c = k) keycol) valcol) = Inr v"
  by (induction ks arbitrary: r) (auto split: sum.splits)

lemma value_counts_keys: "map fst (value_counts s) = remdups (filter (\<lambda>c. \<not> isna c) s)"
  by (simp add: value_counts_def o_def)

text \<open>
  C10. When \<open>calculate_merchant_stats\<close> returns, \<open>state_counts\<close> and
  \<open>state_amounts\<close> have the same keys, each once: the values of the
  merchant's \<open>State\<close> cells that are not null (all of them in a table with
  normalized states). Every count is positive and is the number of the
  merchant's rows in that state; every amount is the sum of \<open>Amount\<close> over
  those rows.
\<close>

theorem state_breakdown_keys:
  assumes "calculate_merchant_stats df m = Inr st"
  shows "\<exists>mcol scol acol.
     getitem df ''Merchant ID'' = Inr mcol \<and>
     getitem (filter_rows (map (\<lambda>c. cell_eq c m) mcol) df) ''State'' = Inr scol \<and>
     getitem (filter_rows (map (\<lambda>c. cell_eq c m) mcol) df) ''Amount'' = Inr acol \<and>
     fst ` set (state_counts st) = {c \<in> set scol. \<not> isna c} \<and>
     fst ` set (state_amounts st) = {c \<in> set scol. \<not> isna c} \<and>
     ((\<forall>c \<in> set scol. \<not> isna c) \<longrightarrow> fst ` set (state_counts st) = set scol) \<and>
     distinct (map fst (state_counts st)) \<and> distinct (map fst (state_amounts st)) \<and>
     (\<forall>kn \<in> set (state_counts st). 0 < snd kn \<and> snd kn = count_list scol (fst kn)) \<and>
     (\<forall>kv \<in> set (state_amounts st).
        series_sum (select_rows (map (\<lambda>c. c = fst kv) scol) acol) = Inr (snd kv))"
proof -
  from assms obtain mcol scol acol where
    mc: "getitem df ''Merchant ID'' = Inr mcol"
    and s: "getitem (filter_rows (map (\<lambda>c. cell_eq c m) mcol) df) ''State'' = Inr scol"
    and a: "getitem (filter_rows (map (\<lambda>c. cell_eq c m) mcol) df) ''Amount'' = Inr acol"
    and v: "state_counts st = value_counts scol"
    and g: "groupby_sum scol acol = Inr (state_amounts st)"
    by (rule calculate_merchant_stats_Inr)
  have kc: "map fst (state_counts st) = remdups (filter (\<lambda>c. \<not> isna c) scol)"
    using v by (simp add: value_counts_keys)
  have ka: "map fst (state_amounts st) = remdups (filter (\<lambda>c. \<not> isna c) scol)"
    using g unfolding groupby_sum_def by (rule sum_groups_keys)
  have "set (map fst (state_counts st)) = {c \<in> set scol. \<not> isna c}"
    by (simp only: kc set_remdups set_filter)
  then have sc: "fst ` set (state_counts st) = {c \<in> set scol. \<not> isna c}"
    by simp
  have "set (map fst (state_amounts st)) = {c \<in> set scol. \<not> isna c}"
    by (simp only: ka set_remdups set_filter)
  then have sa: "fst ` set (state_amounts st) = {c \<in> set scol. \<not> isna c}"
    by simp
  have full: "(\<forall>c \<in> set scol. \<not> isna c) \<longrightarrow> fst ` set (state_counts st) = set scol"
    using sc by auto
  have d: "distinct (map fst (state_counts st))" "distinct (map fst (state_amounts st))"
    using kc ka by simp_all
  have cnt: "\<forall>kn \<in> set (state_counts st). 0 < snd kn \<and> snd kn = count_list scol (fst kn)"
  proof
    fix kn assume "kn \<in> set (state_counts st)"
    then obtain k where k: "k \<in> set scol" "kn = (k, length (filter (\<lambda>c. c = k) scol))"
      using v by (auto simp: value_counts_def)
    then have "filter (\<lambda>c. c = k) scol \<noteq> []"
      by (simp add: filter_empty_conv)
    then show "0 < snd kn \<and> snd kn = count_list scol (fst kn)"
      using k by (simp add: count_list_filter)
  qed
  have amt: "\<forall>kv \<in> set (state_amounts st).
        series_sum (select_rows (map (\<lambda>c. c = fst kv) scol) acol) = Inr (snd kv)"
  proof
    fix kv assume "kv \<in> set (state_amounts st)"
    then have "(fst kv, snd kv) \<in> set (state_amounts st)" by simp
    with g show "series_sum (select_rows (map (\<lambda>c. c = fst kv) scol) acol) = Inr (snd kv)"
      unfolding groupby_sum_def by (rule sum_groups_values)
  qed
  show ?thesis
    by (intro exI conjI) (rule mc s a sc sa full d cnt amt)+
qed

theorem state_breakdown_keys_witness:
  "calculate_merchant_stats
     \<lparr>nrows = 3, columns = [(''Merchant ID'', [Str ''M1'', Str ''M1'', Str ''M2'']),
        (''Amount'', [Flt (Fin 10), Flt (Fin 5), Flt (Fin 7)]),
        (''State'', [Str ''Remitted'', Str ''Rejected'', Str ''Remitted''])]\<rparr> (Str ''M1'')
   = Inr \<lparr>merchant_id = Str ''M1'', total_txns = 2, success_txns = 1,
        success_rate = 50, total_amount = Fin 15, success_amount = Fin 10,
        state_counts = [(Str ''Remitted'', 1), (Str ''Rejected'', 1)],
        state_amounts = [(Str ''Remitted'', Fin 10), (Str ''Rejected'', Fin 5)]\<rparr> \<and>
   fst ` set [(Str ''Remitted'', 1::nat), (Str ''Rejected'', 1)]
     = fst ` set [(Str ''Remitted'', Fin 10), (Str ''Rejected'', Fin 5)]"
proof -
  have c: "calculate_merchant_stats
     \<lparr>nrows = 3, columns = [(''Merchant ID'', [Str ''M1'', Str ''M1'', Str ''M2'']),
        (''Amount'', [Flt (Fin 10), Flt (Fin 5), Flt (Fin 7)]),
        (''State'', [Str ''Remitted'', Str ''Rejected'', Str ''Remitted''])]\<rparr> (Str ''M1'')
   = Inr \<lparr>merchant_id = Str ''M1'', total_txns = 2, success_txns = 1,
        success_rate = 50, total_amount = Fin 15, success_amount = Fin 10,
        state_counts = [(Str ''Remitted'', 1), (Str ''Rejected'', 1)],
        state_amounts = [(Str ''Remitted'', Fin 10), (Str ''Rejected'', Fin 5)]\<rparr>"
    by code_simp
  from state_breakdown_keys [OF c] obtain scol where
    "fst ` set (state_counts \<lparr>merchant_id = Str ''M1'', total_txns = 2, success_txns = 1,
        success_rate = 50, total_amount = Fin 15, success_amount = Fin 10,
        state_counts = [(Str ''Remitted'', 1), (Str ''Rejected'', 1)],
        state_amounts = [(Str ''Remitted'', Fin 10), (Str ''Rejected'', Fin 5)]\<rparr>) = {c \<in> set scol. \<not> isna c}"
    "fst ` set (state_amounts \<lparr>merchant_id = Str ''M1'', total_txns = 2, success_txns = 1,
        success_rate = 50, total_amount = Fin 15, success_amount = Fin 10,
        state_counts = [(Str ''Remitted'', 1), (Str ''Rejected'', 1)],
        state_amounts = [(Str ''Remitted'', Fin 10), (Str ''Rejected'', Fin 5)]\<rparr>) = {c \<in> set scol. \<not> isna c}"
    by blast
  then have "fst ` set (state_counts \<lparr>merchant_id = Str ''M1'', total_txns = 2, success_txns = 1,
        success_rate = 50, total_amount = Fin 15, success_amount = Fin 10,
        state_counts = [(Str ''Remitted'', 1), (Str ''Rejected'', 1)],
        state_amounts = [(Str ''Remitted'', Fin 10), (Str ''Rejected'', Fin 5)]\<rparr>) = fst ` set (state_amounts \<lparr>merchant_id = Str ''M1'', total_txns = 2, success_txns = 1,
        success_rate = 50, total_amount = Fin 15, success_amount = Fin 10,
        state_counts = [(Str ''Remitted'', 1), (Str ''Rejected'', 1)],
        state_amounts = [(Str ''Remitted'', Fin 10), (Str ''Rejected'', Fin 5)]\<rparr>)"
    by simp
  with c show ?thesis by simp
qed

section \<open>The two programs agree\<close>

lemma pdf_state_map_eq: "pdf_state_map = state_map"
  by (simp add: pdf_state_map_def state_map_def)

lemma pdf_normalize_state_eq: "pdf_normalize_state = normalize_state"
proof
  fix c show "pdf_normalize_state c = normalize_state c"
    by (cases c) (simp_all add: pdf_state_map_eq)
qed

lemma pdf_REQUIRED_COLUMNS_eq: "pdf_REQUIRED_COLUMNS = REQUIRED_COLUMNS"
  by (simp add: pdf_REQUIRED_COLUMNS_def REQUIRED_COLUMNS_def)

lemma pdf_clean_dataframe_eq: "pdf_clean_dataframe = clean_dataframe"
  by (rule ext) (unfold pdf_clean_dataframe_def clean_dataframe_def pdf_column_mapping_def
      column_mapping_def pdf_REQUIRED_COLUMNS_eq, rule refl)

lemma pdf_load_file_eq: "pdf_load_file = load_file"
  by (rule ext) (unfold pdf_load_file_def load_file_def pdf_clean_dataframe_eq, rule refl)

lemma pdf_all_data_eq: "pdf_all_data = all_data"
  by (rule ext) (unfold pdf_all_data_def all_data_def pdf_load_file_eq, rule refl)

lemma pdf_normalize_states_eq: "pdf_normalize_states = normalize_states"
  by (rule ext)
    (unfold pdf_normalize_states_def normalize_states_def pdf_normalize_state_eq, rule refl)

lemma pdf_convert_amounts_eq: "pdf_convert_amounts = convert_amounts"
  by (intro ext) (unfold pdf_convert_amounts_def convert_amounts_def, rule refl)

lemma pdf_process_files_eq: "pdf_process_files = process_files"
  by (intro ext) (unfold pdf_process_files_def process_files_def pdf_all_data_eq
      pdf_normalize_states_eq pdf_convert_amounts_eq, rule refl)

lemma pdf_calculate_merchant_stats_eq:
  "pdf_calculate_merchant_stats = calculate_merchant_stats"
  by (intro ext)
    (unfold pdf_calculate_merchant_stats_def calculate_merchant_stats_def, rule refl)

lemma pdf_overall_statistics_eq: "pdf_overall_statistics = overall_statistics"
  by (rule ext) (unfold pdf_overall_statistics_def overall_statistics_def, rule refl)

text \<open>
  C8. The four pipeline functions of \<open>Dashboard_New_PDF1.py\<close> return, on
  every input, what the functions of the same names in \<open>Dashboard_New.py\<close>
  return, and so do the overall figures of the report and of the dashboard.
\<close>

theorem pdf_pipeline_equal:
  "pdf_normalize_state = normalize_state \<and>
   pdf_clean_dataframe = clean_dataframe \<and>
   pdf_process_files = process_files \<and>
   pdf_calculate_merchant_stats = calculate_merchant_stats \<and>
   pdf_overall_statistics = overall_statistics"
  by (intro conjI) (rule pdf_normalize_state_eq pdf_clean_dataframe_eq
      pdf_process_files_eq pdf_calculate_merchant_stats_eq pdf_overall_statistics_eq)+

theorem pdf_pipeline_equal_witness:
  "pdf_calculate_merchant_stats
     \<lparr>nrows = 1, columns = [(''Merchant ID'', [Str ''M1'']),
        (''Amount'', [Flt (Fin 10)]), (''State'', [Str ''Remitted''])]\<rparr> (Str ''M1'')
   = calculate_merchant_stats
     \<lparr>nrows = 1, columns = [(''Merchant ID'', [Str ''M1'']),
        (''Amount'', [Flt (Fin 10)]), (''State'', [Str ''Remitted''])]\<rparr> (Str ''M1'')
   \<and> pdf_normalize_state (Str ''OnHold'') = normalize_state (Str ''OnHold'')"
  using pdf_pipeline_equal by simp

section \<open>Properties of the schema reconciler\<close>

lemma column_mapping_fold:
  "fold (\<lambda>col m. case find (\<lambda>req_col. lower col = lower req_col) REQUIRED_COLUMNS of
                      Some req_col \<Rightarrow> m(col \<mapsto> req_col)
                    | None \<Rightarrow> m) cols m0 l
   = (if l \<in> set cols \<and> find (\<lambda>req_col. lower l = lower req_col) REQUIRED_COLUMNS \<noteq> None
      then find (\<lambda>req_col. lower l = lower req_col) REQUIRED_COLUMNS else m0 l)"
proof (induction cols arbitrary: m0)
  case Nil
  then show ?case by simp
next
  case (Cons c cs)
  show ?case
    by (cases "find (\<lambda>req_col. lower c = lower req_col) REQUIRED_COLUMNS")
      (auto simp: Cons.IH)
qed

lemma column_mapping_apply:
  "l \<in> set cols \<Longrightarrow>
   column_mapping cols l = find (\<lambda>req_col. lower l = lower req_col) REQUIRED_COLUMNS"
  unfolding column_mapping_def by (subst column_mapping_fold) auto

lemma REQUIRED_COLUMNS_distinct: "distinct (map lower REQUIRED_COLUMNS)"
  by code_simp

lemma required_lower_inj:
  "r \<in> set REQUIRED_COLUMNS \<Longrightarrow> r' \<in> set REQUIRED_COLUMNS \<Longrightarrow> lower r = lower r' \<Longrightarrow> r = r'"
  using REQUIRED_COLUMNS_distinct by (auto simp: distinct_map dest: inj_onD)

lemma canonical_name:
  assumes "r \<in> set REQUIRED_COLUMNS"
  shows "(case find (\<lambda>req_col. lower l = lower req_col) REQUIRED_COLUMNS of
            Some q \<Rightarrow> q | None \<Rightarrow> l) = r \<longleftrightarrow> lower l = lower r"
proof (cases "find (\<lambda>req_col. lower l = lower req_col) REQUIRED_COLUMNS")
  case None
  then have "lower l \<noteq> lower r" using assms by (auto simp: find_None_iff)
  moreover have "l \<noteq> r" using calculation by auto
  ultimately show ?thesis using None by simp
next
  case (Some q)
  then have q: "q \<in> set REQUIRED_COLUMNS" "lower l = lower q"
    by (auto simp: find_Some_iff)
  then show ?thesis using Some assms required_lower_inj [of q r] by auto
qed

lemma concat_map_single:
  "distinct ks \<Longrightarrow> (\<forall>k \<in> set ks. k \<noteq> r \<longrightarrow> g k = []) \<Longrightarrow>
   concat (map g ks) = (if r \<in> set ks then g r else [])"
  by (induction ks) auto

lemma clean_dataframe_columns:
  "clean_dataframe df =
     Inr \<lparr>nrows = nrows df,
          columns = concat (map (\<lambda>k. filter (\<lambda>c. fst c = k)
              (map (\<lambda>c. (case find (\<lambda>req_col. lower (strip (fst c)) = lower req_col) REQUIRED_COLUMNS of
                            Some q \<Rightarrow> q | None \<Rightarrow> strip (fst c), snd c)) (columns df)))
            (filter (\<lambda>col. col \<in> (\<lambda>c. case find (\<lambda>req_col. lower (strip (fst c)) = lower req_col) REQUIRED_COLUMNS of
                            Some q \<Rightarrow> q | None \<Rightarrow> strip (fst c)) ` set (columns df)) REQUIRED_COLUMNS))\<rparr>"
proof -
  define df1 where "df1 = strip_columns df"
  define df2 where "df2 = rename (column_mapping (labels df1)) df1"
  have c1: "columns df1 = map (\<lambda>c. (strip (fst c), snd c)) (columns df)"
    by (simp add: df1_def strip_columns_def)
  have c2: "columns df2 = map (\<lambda>c. (case find (\<lambda>req_col. lower (strip (fst c)) = lower req_col) REQUIRED_COLUMNS of
                            Some q \<Rightarrow> q | None \<Rightarrow> strip (fst c), snd c)) (columns df)"
    unfolding df2_def rename_def
    by (simp add: c1 labels_def column_mapping_apply o_def split: option.split)
  have n2: "nrows df2 = nrows df"
    by (simp add: df2_def rename_def df1_def strip_columns_def)
  have l2: "set (labels df2) = (\<lambda>c. case find (\<lambda>req_col. lower (strip (fst c)) = lower req_col) REQUIRED_COLUMNS of
                            Some q \<Rightarrow> q | None \<Rightarrow> strip (fst c)) ` set (columns df)"
    by (auto simp: labels_def c2 image_iff)
  have "clean_dataframe df = getitems df2 (filter (\<lambda>col. col \<in> set (labels df2)) REQUIRED_COLUMNS)"
    by (simp add: clean_dataframe_def Let_def df2_def df1_def)
  also have "\<dots> = Inr (df2\<lparr>columns := concat (map (\<lambda>k. filter (\<lambda>c. fst c = k) (columns df2))
        (filter (\<lambda>col. col \<in> set (labels df2)) REQUIRED_COLUMNS))\<rparr>)"
    by (simp add: getitems_def)
  finally show ?thesis
    by (simp add: c2 [symmetric] l2 [symmetric] n2 [symmetric])
qed

lemma filter_fst_filter_fst:
  "filter (\<lambda>c. fst c = r) (filter (\<lambda>c. fst c = k) cs) = (if k = r then filter (\<lambda>c. fst c = r) cs else [])"
  by (induction cs) auto

text \<open>
  C5, as the code has it. \<open>clean_dataframe\<close> does not resolve a collision.
  For every required name, the output holds under that name every source
  column whose trimmed name equals it up to case, one output column for each,
  in source order and with its own data; the row count is unchanged.
\<close>

theorem clean_dataframe_collision:
  assumes "r \<in> set REQUIRED_COLUMNS"
  shows "\<exists>out. clean_dataframe df = Inr out \<and> nrows out = nrows df \<and>
     filter (\<lambda>c. fst c = r) (columns out) =
       map (\<lambda>c. (r, snd c)) (filter (\<lambda>c. lower (strip (fst c)) = lower r) (columns df))"
proof -
  define new where "new = (\<lambda>c :: string \<times> series.
     case find (\<lambda>req_col. lower (strip (fst c)) = lower req_col) REQUIRED_COLUMNS of
       Some q \<Rightarrow> q | None \<Rightarrow> strip (fst c))"
  define cols2 where "cols2 = map (\<lambda>c. (new c, snd c)) (columns df)"
  define existing where "existing = filter (\<lambda>col. col \<in> new ` set (columns df)) REQUIRED_COLUMNS"
  define out where "out = \<lparr>nrows = nrows df,
     columns = concat (map (\<lambda>k. filter (\<lambda>c. fst c = k) cols2) existing)\<rparr>"
  have cd: "clean_dataframe df = Inr out"
    unfolding out_def existing_def cols2_def new_def by (rule clean_dataframe_columns)
  have dist: "distinct existing"
    using REQUIRED_COLUMNS_distinct by (simp add: existing_def distinct_map)
  have nr: "new c = r \<longleftrightarrow> lower (strip (fst c)) = lower r" for c
    unfolding new_def using canonical_name [OF assms, of "strip (fst c)"] .
  have sel: "filter (\<lambda>c. fst c = r) cols2
      = map (\<lambda>c. (r, snd c)) (filter (\<lambda>c. lower (strip (fst c)) = lower r) (columns df))"
    unfolding cols2_def by (induction "columns df") (auto simp: filter_map o_def nr)
  have "filter (\<lambda>c. fst c = r) (columns out)
      = concat (map (\<lambda>k. filter (\<lambda>c. fst c = r) (filter (\<lambda>c. fst c = k) cols2)) existing)"
    by (simp add: out_def filter_concat o_def)
  also have "\<dots> = (if r \<in> set existing
       then filter (\<lambda>c. fst c = r) (filter (\<lambda>c. fst c = r) cols2) else [])"
    by (rule concat_map_single [OF dist]) (simp add: filter_fst_filter_fst)
  also have "\<dots> = filter (\<lambda>c. fst c = r) cols2"
  proof (cases "r \<in> set existing")
    case True
    then show ?thesis by simp
  next
    case False
    then have "r \<notin> new ` set (columns df)"
      using assms by (simp add: existing_def)
    then have "filter (\<lambda>c. fst c = r) cols2 = []"
      by (auto simp: cols2_def filter_empty_conv)
    with False show ?thesis by simp
  qed
  finally have "filter (\<lambda>c. fst c = r) (columns out)
      = map (\<lambda>c. (r, snd c)) (filter (\<lambda>c. lower (strip (fst c)) = lower r) (columns df))"
    by (simp only: sel)
  moreover have "nrows out = nrows df" by (simp add: out_def)
  ultimately show ?thesis using cd by blast
qed

theorem clean_dataframe_collision_witness:
  "''State'' \<in> set REQUIRED_COLUMNS \<and>
   (\<exists>out. clean_dataframe
       \<lparr>nrows = 1, columns = [(''state'', [Str ''x'']), (''STATE '', [Str ''y'']),
          (''note'', [Str ''z''])]\<rparr> = Inr out \<and>
      nrows out = 1 \<and>
      filter (\<lambda>c. fst c = ''State'') (columns out) = [(''State'', [Str ''x'']), (''State'', [Str ''y''])])"
proof -
  have r: "''State'' \<in> set REQUIRED_COLUMNS" by code_simp
  have f: "map (\<lambda>c. (''State'', snd c)) (filter (\<lambda>c. lower (strip (fst c)) = lower ''State'')
       [(''state'', [Str ''x'']), (''STATE '', [Str ''y'']), (''note'', [Str ''z''])])
     = [(''State'', [Str ''x'']), (''State'', [Str ''y''])]"
    by code_simp
  from clean_dataframe_collision [OF r, of "\<lparr>nrows = 1, columns = [(''state'', [Str ''x'']),
      (''STATE '', [Str ''y'']), (''note'', [Str ''z''])]\<rparr>"] r f
  show ?thesis by simp
qed

text \<open>
  C5 as the specification states it fails: with the two source columns
  \<open>state\<close> and \<open>STATE\<close> the output has two columns named \<open>State\<close>, the
  earlier one first, and not one column holding the later one's data.
\<close>

theorem clean_dataframe_collision_counterexample:
  "clean_dataframe \<lparr>nrows = 1, columns = [(''state'', [Str ''x'']), (''STATE'', [Str ''y''])]\<rparr>
     = Inr \<lparr>nrows = 1, columns = [(''State'', [Str ''x'']), (''State'', [Str ''y''])]\<rparr> \<and>
   clean_dataframe \<lparr>nrows = 1, columns = [(''state'', [Str ''x'']), (''STATE'', [Str ''y''])]\<rparr>
     \<noteq> Inr \<lparr>nrows = 1, columns = [(''State'', [Str ''y''])]\<rparr>"
  by code_simp

section \<open>Properties of the ingestion\<close>





lemma nrows_setitem: "nrows (setitem df l d) = nrows df"
  by (simp add: setitem_def)

lemma normalize_states_nrows: "normalize_states c = Inr d \<Longrightarrow> nrows d = nrows c"
  unfolding normalize_states_def by (auto split: if_splits sum.splits simp: nrows_setitem)

lemma convert_amounts_nrows: "convert_amounts p c = Inr d \<Longrightarrow> nrows d = nrows c"
  unfolding convert_amounts_def by (auto split: if_splits sum.splits simp: nrows_setitem)

lemma process_files_cases:
  "process_files p fs = Inr r \<Longrightarrow>
     (all_data fs = [] \<and> r = None) \<or>
     (all_data fs \<noteq> [] \<and>
      (\<exists>combined df1 df2. pd_concat (all_data fs) = Inr combined \<and>
          normalize_states combined = Inr df1 \<and> convert_amounts p df1 = Inr df2 \<and> r = Some df2))"
  unfolding process_files_def Let_def by (auto split: if_splits sum.splits)





lemma getitem_labels: "getitem df l = Inr d \<Longrightarrow> l \<in> set (labels df)"
  using getitem_Inr_mem [of df l d] by (force simp: labels_def)

lemma filter_setitem_other:
  "l \<noteq> l' \<Longrightarrow>
   filter (\<lambda>c. fst c = l') (map (\<lambda>c. if fst c = l then (l, d) else c) cs)
     = filter (\<lambda>c. fst c = l') cs"
  by (induction cs) auto

lemma filter_setitem_same:
  "filter (\<lambda>c. fst c = l) (map (\<lambda>c. if fst c = l then (l, d) else c) cs)
     = map (\<lambda>c. (l, d)) (filter (\<lambda>c. fst c = l) cs)"
  by (induction cs) auto

lemma getitem_setitem_other: "l \<noteq> l' \<Longrightarrow> getitem (setitem df l d) l' = getitem df l'"
  by (simp add: getitem_def setitem_def filter_setitem_other)

lemma getitem_setitem_same:
  assumes "getitem df l = Inr d0"
  shows "getitem (setitem df l d) l = Inr d"
proof -
  from assms obtain c where "filter (\<lambda>c. fst c = l) (columns df) = [c]"
    unfolding getitem_def by (auto split: list.splits)
  then show ?thesis
    by (simp add: getitem_def setitem_def filter_setitem_same)
qed

lemma normalize_states_other:
  "normalize_states c = Inr d \<Longrightarrow> l \<noteq> ''State'' \<Longrightarrow> getitem d l = getitem c l"
  unfolding normalize_states_def
  by (auto split: if_splits sum.splits simp: getitem_setitem_other)

lemma convert_amounts_column:
  assumes "convert_amounts p c = Inr d" and "getitem d ''Amount'' = Inr col"
  shows "\<exists>src. getitem c ''Amount'' = Inr src \<and>
               col = map (\<lambda>x. Flt (fillna0 (to_numeric p x))) src"
proof (cases "''Amount'' \<in> set (labels c)")
  case True
  with assms(1) obtain src where
    src: "getitem c ''Amount'' = Inr src"
    and d: "d = setitem c ''Amount'' (map (\<lambda>x. Flt (fillna0 (to_numeric p x))) src)"
    unfolding convert_amounts_def by (auto split: sum.splits)
  from getitem_setitem_same [OF src] assms(2) d
  have "col = map (\<lambda>x. Flt (fillna0 (to_numeric p x))) src" by simp
  with src show ?thesis by simp
next
  case False
  with assms(1) have "d = c" by (simp add: convert_amounts_def)
  with assms(2) False getitem_labels show ?thesis by blast
qed

lemma fillna0_eq: "fillna0 f = (if f = NaN then Fin 0 else f)"
  by (cases f) simp_all

lemma fillna0_not_nan: "\<not> isna (Flt (fillna0 f))"
  by (cases f) simp_all

text \<open>
  C7, as the code has it. When \<open>process_files\<close> returns a table with an
  \<open>Amount\<close> column, that column has one cell for every cell of the \<open>Amount\<close>
  column of the combined table, the table has all rows of the combined table,
  and each cell is a number that is not NaN: 0 where \<open>to_numeric\<close> gave NaN
  (a value that fails coercion, or a missing one), and otherwise the value of
  \<open>to_numeric\<close> as it is, an infinity included.
\<close>

theorem process_files_amounts:
  assumes "process_files p fs = Inr (Some df)" and "getitem df ''Amount'' = Inr col"
  shows "\<exists>combined src.
     pd_concat (all_data fs) = Inr combined \<and> getitem combined ''Amount'' = Inr src \<and>
     nrows df = nrows combined \<and> length col = length src \<and>
     (\<forall>i < length src.
        col ! i = Flt (if to_numeric p (src ! i) = NaN then Fin 0 else to_numeric p (src ! i))) \<and>
     (\<forall>c \<in> set col. \<not> isna c \<and> (\<exists>f. c = Flt f))"
proof -
  from process_files_cases [OF assms(1)] obtain combined df1 where
    c: "pd_concat (all_data fs) = Inr combined"
    and n: "normalize_states combined = Inr df1" and v: "convert_amounts p df1 = Inr df"
    by auto
  from convert_amounts_column [OF v assms(2)] obtain src where
    src1: "getitem df1 ''Amount'' = Inr src"
    and col: "col = map (\<lambda>x. Flt (fillna0 (to_numeric p x))) src"
    by blast
  have src: "getitem combined ''Amount'' = Inr src"
    using normalize_states_other [OF n, of "''Amount''"] src1 by simp
  have nr: "nrows df = nrows combined"
    using normalize_states_nrows [OF n] convert_amounts_nrows [OF v] by simp
  have len: "length col = length src" by (simp add: col)
  have idx: "\<forall>i < length src.
        col ! i = Flt (if to_numeric p (src ! i) = NaN then Fin 0 else to_numeric p (src ! i))"
    by (simp add: col fillna0_eq)
  have nn: "\<forall>c \<in> set col. \<not> isna c \<and> (\<exists>f. c = Flt f)"
    unfolding col by (auto simp: fillna0_not_nan)
  show ?thesis
    by (intro exI conjI) (rule c src nr len idx nn)+
qed

theorem process_files_amounts_witness:
  "process_files sample_str_to_num
     [\<lparr>name = ''a.csv'',
       read_csv = Inr \<lparr>nrows = 3, columns = [(''amount'', [Str ''12.5'', Str ''N/A'', Flt NaN])]\<rparr>,
       read_excel = Inl ParseError\<rparr>]
   = Inr (Some \<lparr>nrows = 3, columns = [(''Amount'', [Flt (Fin (25 / 2)), Flt (Fin 0), Flt (Fin 0)])]\<rparr>) \<and>
   getitem \<lparr>nrows = 3, columns = [(''Amount'', [Flt (Fin (25 / 2)), Flt (Fin 0), Flt (Fin 0)])]\<rparr>
       ''Amount'' = Inr [Flt (Fin (25 / 2)), Flt (Fin 0), Flt (Fin 0)] \<and>
   list_all (\<lambda>c. \<not> isna c) [Flt (Fin (25 / 2)), Flt (Fin 0), Flt (Fin 0)]"
proof -
  have a: "process_files sample_str_to_num
     [\<lparr>name = ''a.csv'',
       read_csv = Inr \<lparr>nrows = 3, columns = [(''amount'', [Str ''12.5'', Str ''N/A'', Flt NaN])]\<rparr>,
       read_excel = Inl ParseError\<rparr>]
   = Inr (Some \<lparr>nrows = 3, columns = [(''Amount'', [Flt (Fin (25 / 2)), Flt (Fin 0), Flt (Fin 0)])]\<rparr>)"
    by code_simp
  have g: "getitem \<lparr>nrows = 3, columns = [(''Amount'', [Flt (Fin (25 / 2)), Flt (Fin 0), Flt (Fin 0)])]\<rparr>
       ''Amount'' = Inr [Flt (Fin (25 / 2)), Flt (Fin 0), Flt (Fin 0)]"
    by code_simp
  from process_files_amounts [OF a g]
  have "\<forall>c \<in> set [Flt (Fin (25 / 2)), Flt (Fin 0), Flt (Fin 0)]. \<not> isna c"
    by blast
  then have "list_all (\<lambda>c. \<not> isna c) [Flt (Fin (25 / 2)), Flt (Fin 0), Flt (Fin 0)]"
    by (simp only: list_all_iff)
  with a g show ?thesis by blast
qed

text \<open>
  C7 as the specification states it fails: an \<open>Amount\<close> cell that holds an
  infinity (as the readers give for the text \<open>inf\<close>) is a number, so it is
  neither coerced nor filled, and the column of the returned table is not
  finite throughout. The unparseable \<open>N/A\<close> next to it becomes 0.
\<close>

theorem process_files_amounts_counterexample:
  "process_files sample_str_to_num
     [\<lparr>name = ''a.csv'',
       read_csv = Inr \<lparr>nrows = 2, columns = [(''Amount'', [Flt PInf, Str ''N/A''])]\<rparr>,
       read_excel = Inl ParseError\<rparr>]
   = Inr (Some \<lparr>nrows = 2, columns = [(''Amount'', [Flt PInf, Flt (Fin 0)])]\<rparr>) \<and>
   \<not> list_all is_finite [Flt PInf, Flt (Fin 0)]"
  by code_simp

section \<open>Properties of the date range\<close>








section \<open>The unified table has normalized states\<close>

lemma convert_amounts_other:
  "convert_amounts p c = Inr d \<Longrightarrow> l \<noteq> ''Amount'' \<Longrightarrow> getitem d l = getitem c l"
  unfolding convert_amounts_def
  by (auto split: if_splits sum.splits simp: getitem_setitem_other)

lemma normalize_states_column:
  assumes "normalize_states c = Inr d" and "getitem d ''State'' = Inr col"
  shows "\<exists>vs. col = map Str vs"
proof (cases "''State'' \<in> set (labels c)")
  case True
  with assms(1) obtain src vs where
    src: "getitem c ''State'' = Inr src"
    and d: "d = setitem c ''State'' (map Str vs)"
    unfolding normalize_states_def by (auto split: sum.splits)
  from getitem_setitem_same [OF src] assms(2) d
  have "col = map Str vs" by simp
  then show ?thesis by blast
next
  case False
  with assms(1) have "d = c" by (simp add: normalize_states_def)
  with assms(2) False getitem_labels show ?thesis by blast
qed

text \<open>Every \<open>State\<close> cell of a table that \<open>process_files\<close> returns is a
  string, so none is null: the hypothesis on the \<open>State\<close> column in the
  statistics above holds for the unified table.\<close>

lemma process_files_states_not_null:
  assumes "process_files p fs = Inr (Some df)" and "getitem df ''State'' = Inr scol"
  shows "\<forall>c \<in> set scol. \<not> isna c \<and> (\<exists>s. c = Str s)"
proof -
  from process_files_cases [OF assms(1)] obtain combined df1 where
    n: "normalize_states combined = Inr df1" and v: "convert_amounts p df1 = Inr df"
    by auto
  have "getitem df1 ''State'' = Inr scol"
    using convert_amounts_other [OF v, of "''State''"] assms(2) by simp
  from normalize_states_column [OF n this] obtain vs where "scol = map Str vs" by blast
  then show ?thesis by auto
qed

end
